theory Spec2Isabelle
  imports Main "HOL-Library.AList" "HOL-Library.Product_Lexorder" "HOL-Library.Multiset"
begin

section \<open>The measurement store\<close>

text \<open>
  Values held by one cell of the measurement store: an integer scalar, a text (statuses
  are texts) or a numpy array of integers.  Floating point values are left out.
\<close>

datatype val = Scalar int | Text string | NdArray "int list"

text \<open>
  Modelled from the spec: the class \<open>Measurements\<close> (cellprofiler_core.measurement) is
  not among the sources; the store is the logical tensor addressed by
  (entity, feature, image number) of the specification, with the operations the
  coordinator calls.  A column exists once a feature has been written; a cell that
  holds nothing reads as Python's \<open>None\<close>, here \<open>None\<close>.
\<close>

type_synonym column = "int \<Rightarrow> val option"

record store =
  columns :: "((string \<times> string) \<times> column) list"
  image_numbers :: "int list"
  groups :: bool
  relationships :: "(string \<times> int \<times> int) list"

definition get_image_numbers :: "store \<Rightarrow> int list" where
  "get_image_numbers m = image_numbers m"

definition has_groups :: "store \<Rightarrow> bool" where
  "has_groups m = groups m"

definition has_feature :: "store \<Rightarrow> string \<Rightarrow> string \<Rightarrow> bool" where
  "has_feature m obj feature = (map_of (columns m) (obj, feature) \<noteq> None)"

definition get_measurement :: "store \<Rightarrow> string \<Rightarrow> string \<Rightarrow> int \<Rightarrow> val option" where
  "get_measurement m obj feature n =
     (case map_of (columns m) (obj, feature) of None \<Rightarrow> None | Some c \<Rightarrow> c n)"

definition has_measurements :: "store \<Rightarrow> string \<Rightarrow> string \<Rightarrow> int \<Rightarrow> bool" where
  "has_measurements m obj feature n = (get_measurement m obj feature n \<noteq> None)"

definition set_measurement :: "store \<Rightarrow> string \<Rightarrow> string \<Rightarrow> int \<Rightarrow> val option \<Rightarrow> store" where
  "set_measurement m obj feature n v =
     (let c = (case map_of (columns m) (obj, feature) of None \<Rightarrow> (\<lambda>_. None) | Some c \<Rightarrow> c)
      in m\<lparr>columns := AList.update (obj, feature) (c(n := v)) (columns m)\<rparr>)"

text \<open>Vectorised read and write over a sequence of image numbers.\<close>

definition get_measurements :: "store \<Rightarrow> string \<Rightarrow> string \<Rightarrow> int list \<Rightarrow> val option list" where
  "get_measurements m obj feature ns = map (get_measurement m obj feature) ns"

definition set_measurements :: "store \<Rightarrow> string \<Rightarrow> string \<Rightarrow> int list \<Rightarrow> val option list \<Rightarrow> store" where
  "set_measurements m obj feature ns vs =
     fold (\<lambda>(n, v) m'. set_measurement m' obj feature n v) (zip ns vs) m"

definition get_object_names :: "store \<Rightarrow> string list" where
  "get_object_names m = remdups (map (fst \<circ> fst) (columns m))"

definition get_feature_names :: "store \<Rightarrow> string \<Rightarrow> string list" where
  "get_feature_names m obj = remdups (map (snd \<circ> fst) (filter (\<lambda>c. fst (fst c) = obj) (columns m)))"

definition copy_relationships :: "store \<Rightarrow> store \<Rightarrow> store" where
  "copy_relationships m src = m\<lparr>relationships := relationships m @ relationships src\<rparr>"

section \<open>Runner: constants\<close>

definition STATUS :: string where "STATUS = ''ProcessingStatus''"
definition STATUS_UNPROCESSED :: "val option" where "STATUS_UNPROCESSED = Some (Text ''Unprocessed'')"
definition STATUS_IN_PROCESS :: "val option" where "STATUS_IN_PROCESS = Some (Text ''InProcess'')"
definition STATUS_FINISHED_WAITING :: "val option" where
  "STATUS_FINISHED_WAITING = Some (Text ''FinishedWaitingMeasurements'')"
definition STATUS_DONE :: "val option" where "STATUS_DONE = Some (Text ''Done'')"

section \<open>Runner.copy_recieved_measurements\<close>

text \<open>
  The comparison of a local with a remote value:
  \<^verbatim>\<open>numpy.any(rv != lv) if isinstance(lv, numpy.ndarray) else lv != rv\<close>.
  Two arrays differ when some element differs; arrays of different shapes, and an array
  against a value of another kind, count as different.
\<close>

definition differs :: "val option \<Rightarrow> val option \<Rightarrow> bool" where
  "differs lv rv =
     (case lv of
        Some (NdArray a) \<Rightarrow>
          (case rv of
             Some (NdArray b) \<Rightarrow> length b \<noteq> length a \<or> list_ex (\<lambda>(r, l). r \<noteq> l) (zip b a)
           | _ \<Rightarrow> True)
      | _ \<Rightarrow> lv \<noteq> rv)"

definition copy_image_feature :: "store \<Rightarrow> store \<Rightarrow> int list \<Rightarrow> string \<Rightarrow> store" where
  "copy_image_feature recd m ns feature =
     (let f_image_numbers =
            (if \<not> has_feature m ''Image'' feature then ns
             else
               (let local_values = get_measurements m ''Image'' feature ns;
                    remote_values = get_measurements recd ''Image'' feature ns
                in map fst (filter (\<lambda>(i, lv, rv). differs lv rv)
                      (zip ns (zip local_values remote_values)))))
      in if length f_image_numbers > 0
         then set_measurements m ''Image'' feature f_image_numbers
                (get_measurements recd ''Image'' feature f_image_numbers)
         else m)"

definition copy_object :: "store \<Rightarrow> int list \<Rightarrow> string \<Rightarrow> store \<Rightarrow> store" where
  "copy_object recd ns obj m =
     (if obj = ''Experiment'' then m
      else if obj = ''Image''
      then fold (\<lambda>feature m'. copy_image_feature recd m' ns feature) (get_feature_names recd obj) m
      else fold (\<lambda>feature m'. set_measurements m' obj feature ns (get_measurements recd obj feature ns))
             (get_feature_names recd obj) m)"

definition copy_recieved_measurements :: "store \<Rightarrow> store \<Rightarrow> int list \<Rightarrow> store" where
  "copy_recieved_measurements recd m ns =
     (let m1 = copy_relationships m recd;
          m2 = fold (copy_object recd ns) (get_object_names recd) m1
      in fold (\<lambda>n m'. set_measurement m' ''Image'' STATUS n STATUS_DONE) ns m2)"

section \<open>Runner: messages, events and state\<close>

text \<open>
  A job as it lies on the work queue: the image set numbers, \<open>worker_runs_post_group\<close>
  and \<open>wants_dictionary\<close>.
\<close>

type_synonym dictionary = "(string \<times> string) list"
type_synonym job = "int list \<times> bool \<times> bool"

text \<open>
  The pipeline is used through four calls only: \<open>modules()\<close> (each module's
  \<open>get_dictionary()\<close>), \<open>requires_aggregation()\<close>, the dump of \<open>pipeline_as_string\<close> and
  \<open>post_run\<close>, of which the display events it sends through
  \<open>post_run_display_handler\<close> are kept.
\<close>

record pipeline =
  modules :: "dictionary list"
  requires_aggregation :: bool
  pipeline_blob :: string
  post_run_displays :: "nat list"

text \<open>
  The requests of the workers.  The classes are not among the sources; the variants are
  those \<open>jobserver\<close> tests with \<open>isinstance\<close>, in its order, and \<open>Unknown\<close> (with the
  request's text and type name) stands for an object of any other class.  A request is
  received with its reply handle, a number.
\<close>

datatype request_body =
    PipelinePreferences
  | InitialMeasurements
  | WorkRequest
  | ImageSetSuccess int
  | ImageSetSuccessWithDictionary int "dictionary list"
  | SharedDictionaryRequest
  | MeasurementsReport "int list" store
  | AnalysisCancel
  | Interaction string
  | Display string
  | DisplayPostGroup string
  | ExceptionReport string
  | DebugWaiting
  | DebugComplete
  | OmeroLogin
  | Unknown string string

type_synonym request = "nat \<times> request_body"

text \<open>
  What \<open>interface\<close> reads of a request on the finished queue: its reply handle, its
  \<open>image_set_number\<close> and, for an \<open>ImageSetSuccessWithDictionary\<close>, its \<open>shared_dicts\<close>.
\<close>

type_synonym finished_req = "nat \<times> int \<times> dictionary list option"

datatype reply =
    Ack
  | NoWork
  | Work "int list" bool bool
  | SharedDictionary "dictionary list option"
  | Reply_pipeline string "(string \<times> string) list"
  | Reply_buf store

datatype event =
    Started
  | Paused
  | Resumed
  | Progress "(val option \<times> nat) list"
  | Finished "store option" bool
  | DisplayPostRun nat
  | Forwarded request

datatype error = IndexError | KeyError | TypeError | AssertionError | ValueError string

text \<open>
  How a piece of code ends: it returns, it raises (the state is the one reached when the
  exception leaves), or it blocks in a \<open>put\<close> on the full queue of received
  measurements.
\<close>

datatype 'a outcome = Normal 'a | Raises error 'a | Blocks 'a

text \<open>
  The fields of a \<open>Runner\<close>, followed by what the runner does to its surroundings: the
  events given to \<open>event_listener\<close>, the replies sent through the reply handles, the
  messages of \<open>logging.error\<close> and the number of worker processes of the pool.  A buffer
  of measurements is the store \<open>load_measurements_from_buffer\<close> reads from it; the
  \<open>False\<close> that \<open>interface\<close> writes to \<open>analysis_id\<close> is \<open>None\<close>.
\<close>

record runner =
  analysis_id :: "string option"
  initial_measurements_buf :: store
  pipeline :: pipeline
  preferences_as_dict :: "(string \<times> string) list"
  paused :: bool
  cancelled :: bool
  work_queue :: "job list"
  in_process_queue :: "int list list"
  finished_queue :: "finished_req list"
  received_measurements_queue :: "(int list \<times> store) list"
  shared_dicts :: "dictionary list option"
  events :: "event list"
  replies :: "(nat \<times> reply) list"
  error_log :: "string list"
  workers :: nat

definition post_event :: "event \<Rightarrow> runner \<Rightarrow> runner" where
  "post_event evt s = s\<lparr>events := events s @ [evt]\<rparr>"

definition reply :: "nat \<Rightarrow> reply \<Rightarrow> runner \<Rightarrow> runner" where
  "reply handle r s = s\<lparr>replies := replies s @ [(handle, r)]\<rparr>"

definition stop_workers :: "runner \<Rightarrow> runner" where
  "stop_workers s = s\<lparr>workers := 0\<rparr>"

section \<open>Runner: external control\<close>

text \<open>
  \<open>cancel\<close> up to its two joins, \<open>pause\<close> and \<open>resume\<close>; \<open>notify_threads\<close> wakes the two
  condition variables and changes no field.
\<close>

definition cancel :: "runner \<Rightarrow> runner" where
  "cancel s = (stop_workers s)\<lparr>cancelled := True, paused := False\<rparr>"

definition pause :: "runner \<Rightarrow> runner" where
  "pause s = s\<lparr>paused := True\<rparr>"

definition resume :: "runner \<Rightarrow> runner" where
  "resume s = s\<lparr>paused := False\<rparr>"

section \<open>Runner.jobserver\<close>

definition queue_dispatched_job :: "int list \<Rightarrow> runner \<Rightarrow> runner" where
  "queue_dispatched_job job s = s\<lparr>in_process_queue := in_process_queue s @ [job]\<rparr>"

definition queue_imageset_finished :: "finished_req \<Rightarrow> runner \<Rightarrow> runner" where
  "queue_imageset_finished finished_req s = s\<lparr>finished_queue := finished_queue s @ [finished_req]\<rparr>"

text \<open>The queue of received measurements is made with \<open>maxsize=10\<close>: \<open>put\<close> waits while it is full.\<close>

definition queue_received_measurements :: "int list \<Rightarrow> store \<Rightarrow> runner \<Rightarrow> runner outcome" where
  "queue_received_measurements image_set_numbers buf s =
     (if length (received_measurements_queue s) < 10
      then Normal (s\<lparr>received_measurements_queue :=
              received_measurements_queue s @ [(image_set_numbers, buf)]\<rparr>)
      else Blocks s)"

text \<open>The chain of \<open>isinstance\<close> tests on a request taken from the request queue.\<close>

fun serve :: "request \<Rightarrow> runner \<Rightarrow> runner outcome" where
  "serve (h, PipelinePreferences) s =
     Normal (reply h (Reply_pipeline (pipeline_blob (pipeline s)) (preferences_as_dict s)) s)"
| "serve (h, InitialMeasurements) s = Normal (reply h (Reply_buf (initial_measurements_buf s)) s)"
| "serve (h, WorkRequest) s =
     (case work_queue s of
        (job, worker_runs_post_group, wants_dictionary) # rest \<Rightarrow>
          Normal (queue_dispatched_job job
            (reply h (Work job worker_runs_post_group wants_dictionary) (s\<lparr>work_queue := rest\<rparr>)))
      | [] \<Rightarrow> Normal (reply h NoWork s))"
| "serve (h, ImageSetSuccess n) s = Normal (queue_imageset_finished (h, n, None) s)"
| "serve (h, ImageSetSuccessWithDictionary n d) s =
     Normal (queue_imageset_finished (h, n, Some d) s)"
| "serve (h, SharedDictionaryRequest) s = Normal (reply h (SharedDictionary (shared_dicts s)) s)"
| "serve (h, MeasurementsReport image_set_numbers buf) s =
     (case queue_received_measurements image_set_numbers buf s of
        Normal s' \<Rightarrow> Normal (reply h Ack s')
      | other \<Rightarrow> other)"
| "serve (h, AnalysisCancel) s = Normal (reply h Ack (s\<lparr>cancelled := True\<rparr>))"
| "serve (h, Unknown text type) s =
     (let msg = ''Unknown request from worker: '' @ text @ '' of type '' @ type
      in Raises (ValueError msg) (s\<lparr>error_log := error_log s @ [msg]\<rparr>))"
| "serve req s = Normal (post_event (Forwarded req) s)"

text \<open>
  The locals of \<open>jobserver\<close>: the request queue it registers with the boundary, and
  \<open>i_was_paused_before\<close>.
\<close>

record jobserver_frame =
  request_queue :: "request list"
  i_was_paused_before :: bool

text \<open>
  One pass through the body of \<open>while not self.cancelled\<close>.  A pass that finds the
  server paused or the request queue empty waits up to a second and goes back to the
  loop test.
\<close>

definition jobserver_body :: "jobserver_frame \<times> runner \<Rightarrow> (jobserver_frame \<times> runner) outcome" where
  "jobserver_body fs =
     (let (f, s) = fs;
          (f1, s1) = (if paused s \<and> \<not> i_was_paused_before f
                      then (f\<lparr>i_was_paused_before := True\<rparr>, post_event Paused s) else (f, s))
      in if paused s1 \<or> request_queue f1 = [] then Normal (f1, s1)
         else
           (let (f2, s2) = (if i_was_paused_before f1
                            then (f1\<lparr>i_was_paused_before := False\<rparr>, post_event Resumed s1)
                            else (f1, s1))
            in case request_queue f2 of
                 [] \<Rightarrow> Normal (f2, s2)
               | req # rest \<Rightarrow>
                   (case serve req s2 of
                      Normal s3 \<Rightarrow> Normal (f2\<lparr>request_queue := rest\<rparr>, s3)
                    | Raises e s3 \<Rightarrow> Raises e (f2\<lparr>request_queue := rest\<rparr>, s3)
                    | Blocks s3 \<Rightarrow> Blocks (f2, s3))))"

text \<open>
  The loop of \<open>jobserver\<close> while nothing else touches the runner, for at most \<open>fuel\<close>
  passes: \<open>None\<close> when the loop is still running after them.  The loop test reads
  \<open>self.cancelled\<close> and nothing else; a server blocked on the full queue stays blocked.
\<close>

fun jobserver_loop :: "nat \<Rightarrow> jobserver_frame \<times> runner \<Rightarrow> (jobserver_frame \<times> runner) outcome option" where
  "jobserver_loop 0 fs = None"
| "jobserver_loop (Suc fuel) fs =
     (if cancelled (snd fs) then Some (Normal fs)
      else case jobserver_body fs of
             Normal fs' \<Rightarrow> jobserver_loop fuel fs'
           | Raises e fs' \<Rightarrow> Some (Raises e fs')
           | Blocks fs' \<Rightarrow> None)"

section \<open>Runner.interface: planning\<close>

text \<open>
  \<open>image_set_end = measurements.get_image_numbers()[-1]\<close> when no end is given: the
  index raises on a store without image numbers.
\<close>

definition default_image_set_end :: "int option \<Rightarrow> store \<Rightarrow> error + int" where
  "default_image_set_end image_set_end m =
     (case image_set_end of
        Some e \<Rightarrow> Inr e
      | None \<Rightarrow> (case get_image_numbers m of [] \<Rightarrow> Inl IndexError | x # xs \<Rightarrow> Inr (last (x # xs))))"

definition window :: "int \<Rightarrow> int \<Rightarrow> store \<Rightarrow> int list" where
  "window image_set_start image_set_end m =
     filter (\<lambda>x. image_set_start \<le> x \<and> x \<le> image_set_end) (get_image_numbers m)"

text \<open>The dictionary \<open>group_status\<close>, filled over all image numbers of the store.\<close>

type_synonym group_status = "val option \<Rightarrow> val option option"

definition group_status_step :: "store \<Rightarrow> int \<Rightarrow> group_status \<Rightarrow> group_status" where
  "group_status_step m image_number group_status =
     (let group_number = get_measurement m ''Image'' ''Group_Number'' image_number;
          status = get_measurement m ''Image'' STATUS image_number
      in if status \<noteq> STATUS_DONE then group_status(group_number \<mapsto> STATUS_UNPROCESSED)
         else if group_status group_number = None then group_status(group_number \<mapsto> STATUS_DONE)
         else group_status)"

definition group_statuses :: "store \<Rightarrow> group_status" where
  "group_statuses m = fold (group_status_step m) (get_image_numbers m) Map.empty"

text \<open>
  The value of \<open>overwrite\<close> after the two places that force it, with the dictionary of
  group statuses (empty where the source does not compute it).
\<close>

definition plan_overwrite :: "bool \<Rightarrow> bool \<Rightarrow> bool \<Rightarrow> store \<Rightarrow> bool \<times> group_status" where
  "plan_overwrite overwrite aggregation has_groups' m =
     (let overwrite1 = (if aggregation then True else overwrite)
      in if has_groups' \<and> \<not> overwrite1
         then (if \<not> has_feature m ''Image'' STATUS then (True, Map.empty)
               else (overwrite1, group_statuses m))
         else (overwrite1, Map.empty))"

text \<open>
  The loop over \<open>image_sets_to_process\<close> that resets statuses and collects
  \<open>new_image_sets_to_process\<close>; \<open>group_status[group_number]\<close> raises on a missing key.
\<close>

fun reset_statuses ::
  "bool \<Rightarrow> bool \<Rightarrow> group_status \<Rightarrow> int list \<Rightarrow> store \<Rightarrow> int list \<Rightarrow> error + (store \<times> int list)" where
  "reset_statuses overwrite has_groups' group_status [] m new_image_sets_to_process =
     Inr (m, new_image_sets_to_process)"
| "reset_statuses overwrite has_groups' group_status (image_set_number # rest) m new_image_sets_to_process =
     (if overwrite
         \<or> \<not> has_measurements m ''Image'' STATUS image_set_number
         \<or> get_measurement m ''Image'' STATUS image_set_number \<noteq> STATUS_DONE
      then reset_statuses overwrite has_groups' group_status rest
             (set_measurement m ''Image'' STATUS image_set_number STATUS_UNPROCESSED)
             (new_image_sets_to_process @ [image_set_number])
      else if has_groups'
      then (case group_status (get_measurement m ''Image'' ''Group_Number'' image_set_number) of
              None \<Rightarrow> Inl KeyError
            | Some st \<Rightarrow>
                if st \<noteq> STATUS_DONE
                then reset_statuses overwrite has_groups' group_status rest
                       (set_measurement m ''Image'' STATUS image_set_number STATUS_UNPROCESSED)
                       (new_image_sets_to_process @ [image_set_number])
                else reset_statuses overwrite has_groups' group_status rest m new_image_sets_to_process)
      else reset_statuses overwrite has_groups' group_status rest m new_image_sets_to_process)"

text \<open>
  Lines 260 to 320 without the event: the window, the forced overwrite and the reset.
  It gives the store with the statuses reset and the image sets kept for processing.
\<close>

definition select_image_sets ::
  "int \<Rightarrow> int option \<Rightarrow> bool \<Rightarrow> bool \<Rightarrow> store \<Rightarrow> error + (store \<times> int list)" where
  "select_image_sets image_set_start image_set_end overwrite aggregation m =
     (case default_image_set_end image_set_end m of
        Inl e \<Rightarrow> Inl e
      | Inr e \<Rightarrow>
          (let image_sets_to_process = window image_set_start e m;
               has_groups' = has_groups m;
               (overwrite', group_status) = plan_overwrite overwrite aggregation has_groups' m
           in reset_statuses overwrite' has_groups' group_status image_sets_to_process m []))"

text \<open>
  Group number and group index are 1-based integers of the store.  The two \<open>sorted\<close> of
  the partition compare them; a cell that holds no integer is taken to make the
  comparison raise \<open>TypeError\<close>.
\<close>

definition as_int :: "val option \<Rightarrow> int option" where
  "as_int v = (case v of Some (Scalar i) \<Rightarrow> Some i | _ \<Rightarrow> None)"

text \<open>The dictionary \<open>job_groups\<close>, in insertion order: group number to (group index, image set number) pairs.\<close>

fun collect_job_groups ::
  "store \<Rightarrow> int list \<Rightarrow> (int \<times> (int \<times> int) list) list \<Rightarrow> error + (int \<times> (int \<times> int) list) list" where
  "collect_job_groups m [] job_groups = Inr job_groups"
| "collect_job_groups m (image_set_number # rest) job_groups =
     (case (as_int (get_measurement m ''Image'' ''Group_Number'' image_set_number),
            as_int (get_measurement m ''Image'' ''Group_Index'' image_set_number)) of
        (Some group_number, Some group_index) \<Rightarrow>
          collect_job_groups m rest
            (AList.update group_number
               ((case map_of job_groups group_number of None \<Rightarrow> [] | Some l \<Rightarrow> l)
                  @ [(group_index, image_set_number)])
               job_groups)
      | _ \<Rightarrow> Inl TypeError)"

definition partition_jobs :: "bool \<Rightarrow> bool \<Rightarrow> store \<Rightarrow> int list \<Rightarrow> error + (bool \<times> int list list)" where
  "partition_jobs has_groups' aggregation m image_sets_to_process =
     (if has_groups' \<or> aggregation
      then (case collect_job_groups m image_sets_to_process [] of
              Inl e \<Rightarrow> Inl e
            | Inr job_groups \<Rightarrow>
                Inr (True, map (\<lambda>(group_number, members). map snd (sort members))
                             (sort_key fst job_groups)))
      else Inr (False, map (\<lambda>image_set_number. [image_set_number]) image_sets_to_process))"

section \<open>Runner.interface\<close>

text \<open>The parameters and locals of \<open>interface\<close>; \<open>start_signal\<close> counts its releases.\<close>

record interface_frame =
  image_set_start :: int
  image_set_end :: "int option"
  overwrite :: bool
  start_signal :: nat
  posted_analysis_started :: bool
  acknowledged_thread_start :: bool
  measurements :: "store option"
  image_sets_to_process :: "int list"
  worker_runs_post_group :: bool
  job_groups :: "int list list"
  waiting_for_first_imageset :: bool

text \<open>Lines 350 to 364: the first job alone, or every job, goes on the work queue.\<close>

definition seed_work_queue ::
  "bool \<Rightarrow> int list list \<Rightarrow> interface_frame \<times> runner \<Rightarrow> (interface_frame \<times> runner) outcome" where
  "seed_work_queue worker_runs_post_group' job_groups' fs =
     (let (f, s) = fs;
          f0 = f\<lparr>worker_runs_post_group := worker_runs_post_group', job_groups := job_groups'\<rparr>
      in if \<not> worker_runs_post_group'
         then (case job_groups' of
                 [] \<Rightarrow> Raises IndexError (f0, s)
               | first # rest \<Rightarrow>
                   Normal (f0\<lparr>job_groups := rest, waiting_for_first_imageset := True,
                              start_signal := Suc (start_signal f), acknowledged_thread_start := True\<rparr>,
                           s\<lparr>work_queue := work_queue s @ [(first, worker_runs_post_group', True)]\<rparr>))
         else Normal (f0\<lparr>job_groups := [], waiting_for_first_imageset := False,
                         start_signal := Suc (start_signal f), acknowledged_thread_start := True\<rparr>,
                      s\<lparr>work_queue := work_queue s
                           @ map (\<lambda>job. (job, worker_runs_post_group', False)) job_groups'\<rparr>))"

text \<open>
  The body of the \<open>try\<close> up to the main loop.  The writable store is the copy of the
  initial measurements; the shared dictionaries are set from the modules before the
  planning starts; \<open>Started\<close> is posted once the window is known.
\<close>

definition interface_prepare :: "interface_frame \<times> runner \<Rightarrow> (interface_frame \<times> runner) outcome" where
  "interface_prepare fs =
     (let (f, s) = fs;
          m = initial_measurements_buf s;
          f1 = f\<lparr>measurements := Some m\<rparr>;
          s1 = s\<lparr>shared_dicts := Some (modules (pipeline s))\<rparr>
      in case default_image_set_end (image_set_end f) m of
           Inl e \<Rightarrow> Raises e (f1, s1)
         | Inr e \<Rightarrow>
             (let f2 = f1\<lparr>image_sets_to_process := window (image_set_start f) e m,
                         posted_analysis_started := True\<rparr>;
                  s2 = post_event Started s1
              in case select_image_sets (image_set_start f) (image_set_end f) (overwrite f)
                        (requires_aggregation (pipeline s)) m of
                   Inl e \<Rightarrow> Raises e (f2, s2)
                 | Inr (m', new_image_sets_to_process) \<Rightarrow>
                     (let f3 = f2\<lparr>measurements := Some m',
                                 image_sets_to_process := new_image_sets_to_process\<rparr>
                      in case partition_jobs (has_groups m) (requires_aggregation (pipeline s)) m'
                                new_image_sets_to_process of
                           Inl e \<Rightarrow> Raises e (f3, s2)
                         | Inr (worker_runs_post_group', job_groups') \<Rightarrow>
                             seed_work_queue worker_runs_post_group' job_groups' (f3, s2))))"

text \<open>The three drains at the head of the main loop.\<close>

definition gather_measurements :: "store \<Rightarrow> runner \<Rightarrow> store \<times> runner" where
  "gather_measurements m s =
     (fold (\<lambda>(image_numbers, buf) m'. copy_recieved_measurements buf m' image_numbers)
        (received_measurements_queue s) m,
      s\<lparr>received_measurements_queue := []\<rparr>)"

definition mark_in_process :: "store \<Rightarrow> runner \<Rightarrow> store \<times> runner" where
  "mark_in_process m s =
     (fold (\<lambda>image_set_numbers m'.
              fold (\<lambda>image_set_number m''.
                      set_measurement m'' ''Image'' STATUS image_set_number STATUS_IN_PROCESS)
                image_set_numbers m')
        (in_process_queue s) m,
      s\<lparr>in_process_queue := []\<rparr>)"

text \<open>
  The drain of the finished queue.  While \<open>waiting_for_first_imageset\<close> holds, the
  request must be an \<open>ImageSetSuccessWithDictionary\<close> whose dictionaries are as many as
  the modules; the jobs left in \<open>job_groups\<close> then go on the work queue.  A failed
  \<open>assert\<close> leaves with the request taken off the queue and unanswered.
\<close>

fun drain_finished :: "finished_req list \<Rightarrow> store \<Rightarrow> interface_frame \<times> runner \<Rightarrow> (store \<times> interface_frame \<times> runner) outcome" where
  "drain_finished [] m (f, s) = Normal (m, f, s)"
| "drain_finished ((h, image_set_number, dicts) # rest) m (f, s) =
     (let m1 = set_measurement m ''Image'' STATUS image_set_number STATUS_FINISHED_WAITING;
          s1 = s\<lparr>finished_queue := rest\<rparr>
      in if waiting_for_first_imageset f
         then (case dicts of
                 None \<Rightarrow> Raises AssertionError (m1, f, s1)
               | Some d \<Rightarrow>
                   (let s2 = s1\<lparr>shared_dicts := Some d\<rparr>;
                        f2 = f\<lparr>waiting_for_first_imageset := False\<rparr>
                    in if length d \<noteq> length (modules (pipeline s)) then Raises AssertionError (m1, f2, s2)
                       else drain_finished rest m1
                              (f2, reply h Ack
                                 (s2\<lparr>work_queue := work_queue s2
                                       @ map (\<lambda>job. (job, worker_runs_post_group f, False)) (job_groups f)\<rparr>))))
         else drain_finished rest m1 (f, reply h Ack s1))"

text \<open>The \<open>collections.Counter\<close> of the statuses, in order of first occurrence.\<close>

definition status_counts :: "store \<Rightarrow> int list \<Rightarrow> (val option \<times> nat) list" where
  "status_counts m ns =
     (let statuses = map (get_measurement m ''Image'' STATUS) ns
      in map (\<lambda>st. (st, count_list statuses st)) (remdups statuses))"

definition counts_of :: "(val option \<times> nat) list \<Rightarrow> val option \<Rightarrow> nat" where
  "counts_of counts st = (case map_of counts st of None \<Rightarrow> 0 | Some c \<Rightarrow> c)"

text \<open>
  One pass through the body of \<open>while not self.cancelled\<close>, up to the wait on the
  condition variable.  The flag of the result tells that the loop was left by \<open>break\<close>.
\<close>

definition interface_body :: "interface_frame \<times> runner \<Rightarrow> (bool \<times> interface_frame \<times> runner) outcome" where
  "interface_body fs =
     (let (f, s) = fs
      in case measurements f of
           None \<Rightarrow> Raises TypeError (False, f, s)
         | Some m \<Rightarrow>
             (let (m1, s1) = gather_measurements m s;
                  (m2, s2) = mark_in_process m1 s1
              in case drain_finished (finished_queue s2) m2 (f, s2) of
                   Raises e (m3, f3, s3) \<Rightarrow> Raises e (False, f3\<lparr>measurements := Some m3\<rparr>, s3)
                 | Blocks (m3, f3, s3) \<Rightarrow> Blocks (False, f3\<lparr>measurements := Some m3\<rparr>, s3)
                 | Normal (m3, f3, s3) \<Rightarrow>
                     (let f4 = f3\<lparr>measurements := Some m3\<rparr>;
                          counts = status_counts m3 (image_sets_to_process f4);
                          s4 = post_event (Progress counts) s3
                      in if counts_of counts STATUS_DONE = length (image_sets_to_process f4)
                         then (case get_image_numbers m3 of
                                 [] \<Rightarrow> Raises IndexError (False, f4, s4)
                               | x # xs \<Rightarrow>
                                   Normal (True, f4,
                                     s4\<lparr>events := events s4
                                          @ map DisplayPostRun (post_run_displays (pipeline s4))\<rparr>))
                         else Normal (False, f4, s4))))"

text \<open>The test of the inner \<open>while\<close> around \<open>interface_work_cv.wait()\<close>.\<close>

definition interface_must_wait :: "runner \<Rightarrow> bool" where
  "interface_must_wait s =
     (paused s \<or> (\<not> cancelled s \<and> in_process_queue s = [] \<and> finished_queue s = []
                    \<and> received_measurements_queue s = []))"

text \<open>The \<open>finally\<close> block, and the assignment after it that a raised exception skips.\<close>

definition interface_finally :: "interface_frame \<times> runner \<Rightarrow> interface_frame \<times> runner" where
  "interface_finally fs =
     (let (f, s) = fs;
          f1 = (if \<not> acknowledged_thread_start f then f\<lparr>start_signal := Suc (start_signal f)\<rparr> else f);
          s1 = (if posted_analysis_started f
                then post_event (Finished (measurements f) (cancelled s)) s else s)
      in (f1, stop_workers s1))"

definition interface_return :: "interface_frame \<times> runner \<Rightarrow> interface_frame \<times> runner" where
  "interface_return fs = (let (f, s) = interface_finally fs in (f, s\<lparr>analysis_id := None\<rparr>))"

section \<open>The two threads of a run\<close>

text \<open>
  Where a thread stands: not started, running (at its loop test), waiting on its
  condition variable, returned, or left by an exception.
\<close>

datatype thread = Idle | Active | Suspended | Ended | Crashed error

record system =
  interface_thread :: thread
  interface_locals :: interface_frame
  jobserver_thread :: thread
  jobserver_locals :: jobserver_frame
  self :: runner

text \<open>
  A turn of the interface thread.  Its first turn runs \<open>interface\<close> up to the main loop;
  a later turn runs the loop from its test to the wait, or stays in the wait while the
  test of the wait holds; the \<open>finally\<close> block runs on every way out.
\<close>

definition interface_loop_turn :: "system \<Rightarrow> system" where
  "interface_loop_turn sys =
     (let f = interface_locals sys; s = self sys
      in if cancelled s
         then (let (f', s') = interface_return (f, s)
               in sys\<lparr>interface_thread := Ended, interface_locals := f', self := s'\<rparr>)
         else (case interface_body (f, s) of
                 Normal (left, f1, s1) \<Rightarrow>
                   (if left
                    then (let (f', s') = interface_return (f1, s1)
                          in sys\<lparr>interface_thread := Ended, interface_locals := f', self := s'\<rparr>)
                    else sys\<lparr>interface_thread := Suspended, interface_locals := f1, self := s1\<rparr>)
               | Raises e (left, f1, s1) \<Rightarrow>
                   (let (f', s') = interface_finally (f1, s1)
                    in sys\<lparr>interface_thread := Crashed e, interface_locals := f', self := s'\<rparr>)
               | Blocks (left, f1, s1) \<Rightarrow> sys))"

definition interface_turn :: "system \<Rightarrow> system" where
  "interface_turn sys =
     (case interface_thread sys of
        Idle \<Rightarrow>
          (case interface_prepare (interface_locals sys, self sys) of
             Normal (f, s) \<Rightarrow> sys\<lparr>interface_thread := Active, interface_locals := f, self := s\<rparr>
           | Raises e fs \<Rightarrow>
               (let (f', s') = interface_finally fs
                in sys\<lparr>interface_thread := Crashed e, interface_locals := f', self := s'\<rparr>)
           | Blocks fs \<Rightarrow> sys)
      | Active \<Rightarrow> interface_loop_turn sys
      | Suspended \<Rightarrow> (if interface_must_wait (self sys) then sys else interface_loop_turn sys)
      | Ended \<Rightarrow> sys
      | Crashed e \<Rightarrow> sys)"

text \<open>
  A turn of the job server thread.  \<open>start\<close> creates it once the interface thread has
  released the start signal; a turn of the running thread is the loop test and one pass
  through the loop body.
\<close>

definition jobserver_turn :: "system \<Rightarrow> system" where
  "jobserver_turn sys =
     (case jobserver_thread sys of
        Idle \<Rightarrow> (if start_signal (interface_locals sys) = 0 then sys
                 else sys\<lparr>jobserver_thread := Active\<rparr>)
      | Active \<Rightarrow>
          (if cancelled (self sys) then sys\<lparr>jobserver_thread := Ended\<rparr>
           else (case jobserver_body (jobserver_locals sys, self sys) of
                   Normal (f, s) \<Rightarrow> sys\<lparr>jobserver_locals := f, self := s\<rparr>
                 | Raises e (f, s) \<Rightarrow>
                     sys\<lparr>jobserver_thread := Crashed e, jobserver_locals := f, self := s\<rparr>
                 | Blocks fs \<Rightarrow> sys))
      | Suspended \<Rightarrow> sys
      | Ended \<Rightarrow> sys
      | Crashed e \<Rightarrow> sys)"

text \<open>
  What happens in a run, one action at a time: a turn of either thread, a request of a
  worker that the boundary puts on the request queue of the registered job server, and
  the calls of the embedder.
\<close>

datatype action = Interface | Jobserver | Receive request | Cancel | Pause | Resume

fun step :: "action \<Rightarrow> system \<Rightarrow> system" where
  "step Interface sys = interface_turn sys"
| "step Jobserver sys = jobserver_turn sys"
| "step (Receive req) sys =
     (if jobserver_thread sys = Active
      then sys\<lparr>jobserver_locals := (jobserver_locals sys)
                 \<lparr>request_queue := request_queue (jobserver_locals sys) @ [req]\<rparr>\<rparr>
      else sys)"
| "step Cancel sys = sys\<lparr>self := cancel (self sys)\<rparr>"
| "step Pause sys = sys\<lparr>self := pause (self sys)\<rparr>"
| "step Resume sys = sys\<lparr>self := resume (self sys)\<rparr>"

definition run :: "action list \<Rightarrow> system \<Rightarrow> system" where
  "run actions sys = fold step actions sys"


definition new_interface_frame :: "int \<Rightarrow> int option \<Rightarrow> bool \<Rightarrow> interface_frame" where
  "new_interface_frame image_set_start' image_set_end' overwrite' =
     \<lparr>image_set_start = image_set_start', image_set_end = image_set_end', overwrite = overwrite',
      start_signal = 0, posted_analysis_started = False, acknowledged_thread_start = False,
      measurements = None, image_sets_to_process = [], worker_runs_post_group = False,
      job_groups = [], waiting_for_first_imageset = False\<rparr>"

definition new_system :: "runner \<Rightarrow> int \<Rightarrow> int option \<Rightarrow> bool \<Rightarrow> system" where
  "new_system s image_set_start' image_set_end' overwrite' =
     \<lparr>interface_thread = Idle,
      interface_locals = new_interface_frame image_set_start' image_set_end' overwrite',
      jobserver_thread = Idle,
      jobserver_locals = \<lparr>request_queue = [], i_was_paused_before = False\<rparr>,
      self = s\<rparr>"

section \<open>The planner as the specification words it\<close>

text \<open>
  A group is Done when every image set of the store with its group number has status
  Done.  An image set of the window needs a reset when overwrite is set (by the caller,
  or forced by a pipeline that requires aggregation), or its status is missing, or its
  status is not Done, or the store has groups and its group is not Done.
\<close>

definition group_done :: "store \<Rightarrow> int \<Rightarrow> bool" where
  "group_done m n =
     list_all (\<lambda>k. get_measurement m ''Image'' ''Group_Number'' k = get_measurement m ''Image'' ''Group_Number'' n
                    \<longrightarrow> get_measurement m ''Image'' STATUS k = STATUS_DONE)
       (get_image_numbers m)"

definition needs_reset :: "bool \<Rightarrow> bool \<Rightarrow> store \<Rightarrow> int \<Rightarrow> bool" where
  "needs_reset overwrite' aggregation m n =
     ((overwrite' \<or> aggregation)
      \<or> \<not> has_measurements m ''Image'' STATUS n
      \<or> get_measurement m ''Image'' STATUS n \<noteq> STATUS_DONE
      \<or> (has_groups m \<and> \<not> group_done m n))"

section \<open>The job groups in closed form\<close>

text \<open>Adding one image set to the dictionary of job groups.\<close>

definition add_member :: "(int \<Rightarrow> int) \<Rightarrow> (int \<Rightarrow> int) \<Rightarrow> int \<Rightarrow> (int \<times> (int \<times> int) list) list \<Rightarrow> (int \<times> (int \<times> int) list) list" where
  "add_member gn gi n jg =
     AList.update (gn n) ((case map_of jg (gn n) of None \<Rightarrow> [] | Some l \<Rightarrow> l) @ [(gi n, n)]) jg"

definition members :: "(int \<Rightarrow> int) \<Rightarrow> (int \<Rightarrow> int) \<Rightarrow> int list \<Rightarrow> int \<Rightarrow> (int \<times> int) list" where
  "members gn gi ns g = map (\<lambda>n. (gi n, n)) (filter (\<lambda>n. gn n = g) ns)"

section \<open>Concrete stores\<close>




text \<open>
  Scenario S4 of the specification: three image sets, the first two Done, no groups.
\<close>

definition store_S4 :: store where
  "store_S4 =
     \<lparr>columns = [((''Image'', STATUS),
                   (\<lambda>_. None)(1 := STATUS_DONE, 2 := STATUS_DONE, 3 := STATUS_UNPROCESSED))],
      image_numbers = [1, 2, 3], groups = False, relationships = []\<rparr>"





text \<open>
  Scenario S3 of the specification: four image sets in two groups of two.
\<close>

definition group_number_S3 :: "int \<Rightarrow> int" where
  "group_number_S3 n = (if n \<le> 2 then 1 else 2)"

definition group_index_S3 :: "int \<Rightarrow> int" where
  "group_index_S3 n = (if n = 1 \<or> n = 3 then 1 else 2)"

definition store_S3 :: store where
  "store_S3 =
     \<lparr>columns = [((''Image'', ''Group_Number''), \<lambda>n. Some (Scalar (group_number_S3 n))),
                 ((''Image'', ''Group_Index''), \<lambda>n. Some (Scalar (group_index_S3 n)))],
      image_numbers = [1, 2, 3, 4], groups = True, relationships = []\<rparr>"

section \<open>Properties of the store\<close>

lemma get_set_measurement:
  "get_measurement (set_measurement m obj feature n v) obj' feature' n' =
     (if obj' = obj \<and> feature' = feature \<and> n' = n then v else get_measurement m obj' feature' n')"
  by (auto simp: get_measurement_def set_measurement_def Let_def update_conv' split: option.splits)



section \<open>Properties of the merge\<close>










lemma get_fold_status:
  "get_measurement (fold (\<lambda>n m'. set_measurement m' obj feature n v) ns m) obj' feature' n' =
     (if obj' = obj \<and> feature' = feature \<and> n' \<in> set ns then v
      else get_measurement m obj' feature' n')"
  by (induction ns arbitrary: m) (auto simp: get_set_measurement)










section \<open>Properties of the planner\<close>

lemma fold_group_status_step:
  "fold (group_status_step m) ns gs g =
     (if \<exists>k \<in> set ns. get_measurement m ''Image'' ''Group_Number'' k = g
                        \<and> get_measurement m ''Image'' STATUS k \<noteq> STATUS_DONE
      then Some STATUS_UNPROCESSED
      else if gs g \<noteq> None then gs g
      else if g \<in> get_measurement m ''Image'' ''Group_Number'' ` set ns then Some STATUS_DONE
      else None)"
proof (induction ns arbitrary: gs)
  case Nil
  show ?case by simp
next
  case (Cons a ns)
  show ?case
    unfolding fold_simps Cons.IH
    by (auto simp: group_status_step_def Let_def)
qed

lemma group_statuses_Done:
  "n \<in> set (get_image_numbers m) \<Longrightarrow>
     group_statuses m (get_measurement m ''Image'' ''Group_Number'' n) =
       Some (if group_done m n then STATUS_DONE else STATUS_UNPROCESSED)"
  unfolding group_statuses_def fold_group_status_step
  by (auto simp: group_done_def list_all_iff)

text \<open>The test of one pass of the reset loop.\<close>

definition resets :: "bool \<Rightarrow> bool \<Rightarrow> group_status \<Rightarrow> store \<Rightarrow> int \<Rightarrow> bool" where
  "resets ov hg gs m n =
     (ov \<or> \<not> has_measurements m ''Image'' STATUS n
         \<or> get_measurement m ''Image'' STATUS n \<noteq> STATUS_DONE
         \<or> (hg \<and> gs (get_measurement m ''Image'' ''Group_Number'' n) \<noteq> Some STATUS_DONE))"

lemma STATUS_neq [simp]: "STATUS \<noteq> ''Group_Number''" "''Group_Number'' \<noteq> STATUS"
  "STATUS_UNPROCESSED \<noteq> STATUS_DONE"
  "STATUS_UNPROCESSED \<noteq> None"
  by (simp_all add: STATUS_def STATUS_UNPROCESSED_def STATUS_DONE_def)

lemma resets_after_reset:
  "resets ov hg gs m n \<Longrightarrow>
     resets ov hg gs (set_measurement m ''Image'' STATUS n STATUS_UNPROCESSED) k = resets ov hg gs m k"
  by (auto simp: resets_def has_measurements_def get_set_measurement)

lemma reset_statuses_filter:
  assumes "\<forall>n \<in> set ns. hg \<and> \<not> ov \<longrightarrow> gs (get_measurement m ''Image'' ''Group_Number'' n) \<noteq> None"
  shows "reset_statuses ov hg gs ns m acc =
     Inr (fold (\<lambda>n m'. set_measurement m' ''Image'' STATUS n STATUS_UNPROCESSED) (filter (resets ov hg gs m) ns) m,
          acc @ filter (resets ov hg gs m) ns)"
  using assms
proof (induction ns arbitrary: m acc)
  case Nil
  show ?case by simp
next
  case (Cons n ns)
  let ?m1 = "set_measurement m ''Image'' STATUS n STATUS_UNPROCESSED"
  show ?case
  proof (cases "resets ov hg gs m n")
    case True
    have same: "filter (resets ov hg gs ?m1) ns = filter (resets ov hg gs m) ns"
      by (rule filter_cong) (simp_all add: resets_after_reset [OF True])
    have keys: "\<forall>k \<in> set ns. hg \<and> \<not> ov \<longrightarrow> gs (get_measurement ?m1 ''Image'' ''Group_Number'' k) \<noteq> None"
      using Cons.prems by (simp add: get_set_measurement)
    have "reset_statuses ov hg gs (n # ns) m acc = reset_statuses ov hg gs ns ?m1 (acc @ [n])"
      using True Cons.prems by (auto simp: resets_def split: option.splits)
    then show ?thesis
      using Cons.IH [OF keys, of "acc @ [n]"] True by (simp add: same)
  next
    case False
    have keys: "\<forall>k \<in> set ns. hg \<and> \<not> ov \<longrightarrow> gs (get_measurement m ''Image'' ''Group_Number'' k) \<noteq> None"
      using Cons.prems by simp
    have "reset_statuses ov hg gs (n # ns) m acc = reset_statuses ov hg gs ns m acc"
      using False Cons.prems by (auto simp: resets_def split: option.splits)
    then show ?thesis
      using Cons.IH [OF keys, of acc] False by simp
  qed
qed

lemma has_measurements_no_feature:
  "\<not> has_feature m obj feature \<Longrightarrow> \<not> has_measurements m obj feature n"
  by (simp add: has_feature_def has_measurements_def get_measurement_def)

lemma resets_needs_reset:
  assumes "plan_overwrite overwrite' aggregation (has_groups m) m = (ov, gs)"
    and "n \<in> set (get_image_numbers m)"
  shows "resets ov (has_groups m) gs m n = needs_reset overwrite' aggregation m n"
proof (cases "overwrite' \<or> aggregation")
  case True
  then have "ov" using assms(1) by (auto simp: plan_overwrite_def Let_def split: if_splits)
  with True show ?thesis by (simp add: resets_def needs_reset_def)
next
  case False
  note plain = False
  show ?thesis
  proof (cases "has_groups m")
    case False
    then have "\<not> ov" using assms(1) plain by (auto simp: plan_overwrite_def Let_def)
    with False plain show ?thesis by (simp add: resets_def needs_reset_def)
  next
    case True
    show ?thesis
    proof (cases "has_feature m ''Image'' STATUS")
      case False
      then have "\<not> has_measurements m ''Image'' STATUS n"
        by (rule has_measurements_no_feature)
      then show ?thesis by (simp add: resets_def needs_reset_def)
    next
      case feature: True
      have "ov = False" "gs = group_statuses m"
        using assms(1) plain True feature by (auto simp: plan_overwrite_def Let_def)
      moreover have "(group_statuses m (get_measurement m ''Image'' ''Group_Number'' n) \<noteq> Some STATUS_DONE)
          = (\<not> group_done m n)"
        by (simp add: group_statuses_Done [OF assms(2)])
      ultimately show ?thesis
        using plain True by (simp add: resets_def needs_reset_def)
    qed
  qed
qed

lemma plan_overwrite_keys:
  assumes "plan_overwrite overwrite' aggregation hg m = (ov, gs)"
    and "n \<in> set (get_image_numbers m)" and "hg" and "\<not> ov"
  shows "gs (get_measurement m ''Image'' ''Group_Number'' n) \<noteq> None"
  using assms group_statuses_Done [of n m]
  by (auto simp: plan_overwrite_def Let_def split: if_splits)

lemma select_image_sets_filter:
  assumes "default_image_set_end image_set_end' m = Inr e"
  shows "select_image_sets image_set_start' image_set_end' overwrite' aggregation m =
     Inr (fold (\<lambda>n m'. set_measurement m' ''Image'' STATUS n STATUS_UNPROCESSED)
            (filter (needs_reset overwrite' aggregation m) (window image_set_start' e m)) m,
          filter (needs_reset overwrite' aggregation m) (window image_set_start' e m))"
proof -
  obtain ov gs where p: "plan_overwrite overwrite' aggregation (has_groups m) m = (ov, gs)"
    by (cases "plan_overwrite overwrite' aggregation (has_groups m) m")
  have sub: "set (window image_set_start' e m) \<subseteq> set (get_image_numbers m)"
    by (auto simp: window_def)
  have keys: "\<forall>n \<in> set (window image_set_start' e m).
      has_groups m \<and> \<not> ov \<longrightarrow> gs (get_measurement m ''Image'' ''Group_Number'' n) \<noteq> None"
    using plan_overwrite_keys [OF p] sub by blast
  have same: "filter (resets ov (has_groups m) gs m) (window image_set_start' e m)
      = filter (needs_reset overwrite' aggregation m) (window image_set_start' e m)"
    using resets_needs_reset [OF p] sub by (auto intro: filter_cong)
  show ?thesis
    using reset_statuses_filter [OF keys, of "[]"]
    by (simp add: select_image_sets_def assms p same)
qed

text \<open>
  Claim C2: the planner returns whenever the end of the window is known, and for every
  image number of the window it keeps the number for processing and resets its status to
  Unprocessed exactly when the number needs a reset (overwrite is set, or its status is
  missing, or its status is not Done, or the store has groups and its group is not
  entirely Done); a number that does not need a reset keeps its status and is left out.
\<close>

theorem planner_needs_reset:
  assumes "default_image_set_end image_set_end' m = Inr e"
  shows "case select_image_sets image_set_start' image_set_end' overwrite' aggregation m of
           Inl err \<Rightarrow> False
         | Inr (m', new_image_sets_to_process) \<Rightarrow>
             new_image_sets_to_process
               = filter (needs_reset overwrite' aggregation m) (window image_set_start' e m)
             \<and> (\<forall>n \<in> set (window image_set_start' e m).
                   if needs_reset overwrite' aggregation m n
                   then n \<in> set new_image_sets_to_process
                        \<and> get_measurement m' ''Image'' STATUS n = STATUS_UNPROCESSED
                   else n \<notin> set new_image_sets_to_process
                        \<and> get_measurement m' ''Image'' STATUS n = get_measurement m ''Image'' STATUS n)"
  by (simp add: select_image_sets_filter [OF assms] get_fold_status)

theorem planner_needs_reset_witness:
  "case select_image_sets 1 None False False store_S4 of
     Inl err \<Rightarrow> False
   | Inr (m', new_image_sets_to_process) \<Rightarrow>
       new_image_sets_to_process = [3]
       \<and> get_measurement m' ''Image'' STATUS 1 = STATUS_DONE
       \<and> get_measurement m' ''Image'' STATUS 2 = STATUS_DONE
       \<and> get_measurement m' ''Image'' STATUS 3 = STATUS_UNPROCESSED"
proof -
  have e: "default_image_set_end None store_S4 = Inr 3"
    by (simp add: default_image_set_end_def get_image_numbers_def store_S4_def)
  have w: "window 1 3 store_S4 = [1, 2, 3]"
    by (simp add: window_def get_image_numbers_def store_S4_def)
  have st: "get_measurement store_S4 ''Image'' STATUS 1 = STATUS_DONE"
    "get_measurement store_S4 ''Image'' STATUS 2 = STATUS_DONE"
    "get_measurement store_S4 ''Image'' STATUS 3 = STATUS_UNPROCESSED"
    by (simp_all add: get_measurement_def store_S4_def)
  have g: "has_groups store_S4 = False"
    by (simp add: has_groups_def store_S4_def)
  have n: "\<not> needs_reset False False store_S4 1" "\<not> needs_reset False False store_S4 2"
    "needs_reset False False store_S4 3"
    by (simp_all add: needs_reset_def has_measurements_def st g STATUS_DONE_def STATUS_UNPROCESSED_def)
  show ?thesis
    using planner_needs_reset [OF e, where image_set_start' = 1 and overwrite' = False
        and aggregation = False]
    by (simp add: w n st split: sum.splits prod.splits)
qed

section \<open>Properties of the partition into jobs\<close>

lemma collect_job_groups_fold:
  assumes "\<forall>n \<in> set ns. get_measurement m ''Image'' ''Group_Number'' n = Some (Scalar (gn n))
                       \<and> get_measurement m ''Image'' ''Group_Index'' n = Some (Scalar (gi n))"
  shows "collect_job_groups m ns jg = Inr (fold (add_member gn gi) ns jg)"
  using assms by (induction ns arbitrary: jg) (simp_all add: as_int_def add_member_def)

lemma map_of_fold_add_member:
  "map_of (fold (add_member gn gi) ns jg) g =
     (if map_of jg g = None \<and> g \<notin> gn ` set ns then None
      else Some ((case map_of jg g of None \<Rightarrow> [] | Some l \<Rightarrow> l) @ members gn gi ns g))"
proof (induction ns arbitrary: jg)
  case Nil
  show ?case by (auto simp: members_def)
next
  case (Cons n ns)
  show ?case
    unfolding fold_simps Cons.IH
    by (auto simp: add_member_def update_conv' members_def split: option.splits)
qed

lemma distinct_fold_add_member:
  "distinct (map fst jg) \<Longrightarrow> distinct (map fst (fold (add_member gn gi) ns jg))"
  by (induction ns arbitrary: jg) (simp_all add: add_member_def distinct_update)

lemma keys_fold_add_member:
  "fst ` set (fold (add_member gn gi) ns jg) = fst ` set jg \<union> gn ` set ns"
  by (induction ns arbitrary: jg) (auto simp: add_member_def dom_update)

lemma sort_key_fst_alist:
  fixes al :: "(int \<times> 'b) list"
  assumes "distinct (map fst al)"
  shows "sort_key fst al = map (\<lambda>k. (k, the (map_of al k))) (sorted_list_of_set (fst ` set al))"
proof -
  have d: "distinct (map fst (sort_key fst al))"
    using assms by (simp add: distinct_map)
  have keys: "map fst (sort_key fst al) = sorted_list_of_set (fst ` set al)"
  proof (rule sorted_distinct_set_unique)
    show "sorted (map fst (sort_key fst al))" by (rule sorted_sort_key)
    show "distinct (map fst (sort_key fst al))" by (rule d)
    show "sorted (sorted_list_of_set (fst ` set al))" by simp
    show "distinct (sorted_list_of_set (fst ` set al))" by simp
    show "set (map fst (sort_key fst al)) = set (sorted_list_of_set (fst ` set al))" by simp
  qed
  have "map (\<lambda>x. (fst x, the (map_of al (fst x)))) (sort_key fst al) = sort_key fst al"
  proof (rule map_idI)
    fix x assume "x \<in> set (sort_key fst al)"
    then have "(fst x, snd x) \<in> set al" by simp
    with assms have "map_of al (fst x) = Some (snd x)" by (rule map_of_is_SomeI)
    then show "(fst x, the (map_of al (fst x))) = x" by simp
  qed
  then have "sort_key fst al = map (\<lambda>k. (k, the (map_of al k))) (map fst (sort_key fst al))"
    by (simp add: comp_def)
  then show ?thesis by (simp only: keys)
qed

lemma partition_jobs_grouped_eq:
  assumes "\<forall>n \<in> set ns. get_measurement m ''Image'' ''Group_Number'' n = Some (Scalar (gn n))
                       \<and> get_measurement m ''Image'' ''Group_Index'' n = Some (Scalar (gi n))"
    and "hg \<or> aggregation"
  shows "partition_jobs hg aggregation m ns =
     Inr (True, map (\<lambda>g. map snd (sort (members gn gi ns g))) (sorted_list_of_set (gn ` set ns)))"
proof -
  let ?jg = "fold (add_member gn gi) ns []"
  have d: "distinct (map fst ?jg)" by (rule distinct_fold_add_member) simp
  have k: "fst ` set ?jg = gn ` set ns" by (simp add: keys_fold_add_member)
  have "map (\<lambda>(group_number, ms). map snd (sort ms)) (sort_key fst ?jg)
      = map (\<lambda>g. map snd (sort (the (map_of ?jg g)))) (sorted_list_of_set (gn ` set ns))"
    by (simp add: sort_key_fst_alist [OF d] k comp_def)
  also have "\<dots> = map (\<lambda>g. map snd (sort (members gn gi ns g))) (sorted_list_of_set (gn ` set ns))"
    by (rule map_cong) (simp_all add: map_of_fold_add_member)
  finally show ?thesis
    using assms(2) by (simp add: partition_jobs_def collect_job_groups_fold [OF assms(1)])
qed

lemma sorted_map_fst:
  fixes ps :: "(int \<times> int) list"
  shows "sorted ps \<Longrightarrow> sorted (map fst ps)"
  by (induction ps) (auto simp: less_eq_prod_def)

text \<open>
  Claim C3: on a store whose image sets carry a group number \<open>gn\<close> and a group index
  \<open>gi\<close>, a run with groups or with a pipeline that requires aggregation gets exactly one
  job per group of the selected image sets, the jobs in ascending order of group number,
  each job holding exactly the selected members of its group in ascending order of group
  index, and \<open>worker_runs_post_group\<close> true; any other run gets one single-element job
  per selected image set, in order, and \<open>worker_runs_post_group\<close> false.
\<close>

theorem partition_jobs_groups:
  assumes "\<forall>n \<in> set ns. get_measurement m ''Image'' ''Group_Number'' n = Some (Scalar (gn n))
                       \<and> get_measurement m ''Image'' ''Group_Index'' n = Some (Scalar (gi n))"
  shows "if hg \<or> aggregation
         then \<exists>jobs. partition_jobs hg aggregation m ns = Inr (True, jobs)
                \<and> map (\<lambda>job. gn (hd job)) jobs = sorted_list_of_set (gn ` set ns)
                \<and> (\<forall>job \<in> set jobs. job \<noteq> []
                       \<and> mset job = mset (filter (\<lambda>n. gn n = gn (hd job)) ns)
                       \<and> sorted (map gi job))
         else partition_jobs hg aggregation m ns = Inr (False, map (\<lambda>n. [n]) ns)"
proof (cases "hg \<or> aggregation")
  case False
  then show ?thesis by (simp add: partition_jobs_def)
next
  case True
  let ?job = "\<lambda>g. map snd (sort (members gn gi ns g))"
  have ms: "mset (?job g) = mset (filter (\<lambda>n. gn n = g) ns)" for g
  proof -
    have "mset (?job g) = image_mset snd (mset (members gn gi ns g))" by simp
    also have "\<dots> = mset (filter (\<lambda>n. gn n = g) ns)"
      by (simp add: members_def multiset.map_comp comp_def)
    finally show ?thesis .
  qed
  have set_job: "set (?job g) = {n \<in> set ns. gn n = g}" for g
    by (auto simp: members_def image_iff)
  have nonempty: "g \<in> gn ` set ns \<Longrightarrow> ?job g \<noteq> []" for g
    using set_job [of g] by (metis (mono_tags, lifting) empty_iff image_iff mem_Collect_eq set_empty)
  have hd_grp: "g \<in> gn ` set ns \<Longrightarrow> gn (hd (?job g)) = g" for g
  proof -
    assume "g \<in> gn ` set ns"
    then have "hd (?job g) \<in> set (?job g)" using nonempty by (intro hd_in_set)
    then show ?thesis unfolding set_job by simp
  qed
  have idx: "sorted (map gi (?job g))" for g
  proof -
    have "\<forall>p \<in> set (sort (members gn gi ns g)). (gi \<circ> snd) p = fst p"
      by (auto simp: members_def)
    then have eq: "map gi (?job g) = map fst (sort (members gn gi ns g))"
      unfolding map_map by (simp only: map_eq_conv)
    show ?thesis unfolding eq by (rule sorted_map_fst) simp
  qed
  let ?G = "sorted_list_of_set (gn ` set ns)"
  have heads: "map (\<lambda>job. gn (hd job)) (map ?job ?G) = ?G"
  proof -
    have "map (\<lambda>job. gn (hd job)) (map ?job ?G) = map (\<lambda>g. gn (hd (?job g))) ?G"
      by (simp add: comp_def)
    also have "\<dots> = map (\<lambda>g. g) ?G"
      by (rule map_cong) (simp_all add: hd_grp)
    finally show ?thesis by simp
  qed
  have all: "\<forall>job \<in> set (map ?job ?G). job \<noteq> []
      \<and> mset job = mset (filter (\<lambda>n. gn n = gn (hd job)) ns) \<and> sorted (map gi job)"
  proof
    fix job assume "job \<in> set (map ?job ?G)"
    then obtain g where g: "g \<in> gn ` set ns" and job: "job = ?job g" by auto
    show "job \<noteq> [] \<and> mset job = mset (filter (\<lambda>n. gn n = gn (hd job)) ns) \<and> sorted (map gi job)"
      unfolding job using nonempty [OF g] hd_grp [OF g] ms [of g] idx [of g] by simp
  qed
  have eq: "partition_jobs hg aggregation m ns = Inr (True, map ?job ?G)"
    by (rule partition_jobs_grouped_eq [OF assms True])
  have "\<exists>jobs. partition_jobs hg aggregation m ns = Inr (True, jobs)
                \<and> map (\<lambda>job. gn (hd job)) jobs = sorted_list_of_set (gn ` set ns)
                \<and> (\<forall>job \<in> set jobs. job \<noteq> []
                       \<and> mset job = mset (filter (\<lambda>n. gn n = gn (hd job)) ns)
                       \<and> sorted (map gi job))"
    using eq heads all by blast
  then show ?thesis using True by simp
qed

theorem partition_jobs_groups_witness:
  "\<exists>jobs. partition_jobs True False store_S3 [1, 2, 3, 4] = Inr (True, jobs)
      \<and> jobs = [[1, 2], [3, 4]]
      \<and> map (\<lambda>job. group_number_S3 (hd job)) jobs
          = sorted_list_of_set (group_number_S3 ` set [1, 2, 3, 4])"
proof -
  have meta: "\<forall>n \<in> set [1, 2, 3, 4].
      get_measurement store_S3 ''Image'' ''Group_Number'' n = Some (Scalar (group_number_S3 n))
      \<and> get_measurement store_S3 ''Image'' ''Group_Index'' n = Some (Scalar (group_index_S3 n))"
    by (simp add: get_measurement_def store_S3_def)
  have ev: "partition_jobs True False store_S3 [1, 2, 3, 4] = Inr (True, [[1, 2], [3, 4]])"
    by code_simp
  show ?thesis
    using partition_jobs_groups [OF meta, of True False] ev by auto
qed

section \<open>Properties of the job server\<close>




end
